theory Spec2Isabelle
  imports Main "HOL-Library.Char_ord" "HOL-Library.List_Lexorder"
begin

section \<open>Strings and paths\<close>

text \<open>
  Python strings are modelled as \<open>string\<close>. File names are byte strings; the order of
  \<open>HOL-Library.Char_ord\<close> and \<open>HOL-Library.List_Lexorder\<close> is the lexicographic
  order by character code that Python uses to compare \<open>str\<close> values.
\<close>

definition startswith :: "string \<Rightarrow> string \<Rightarrow> bool" where
  "startswith s pre = (take (length pre) s = pre)"

definition endswith :: "string \<Rightarrow> string \<Rightarrow> bool" where
  "endswith s suf = (length suf \<le> length s \<and> drop (length s - length suf) s = suf)"

text \<open>\<open>str.split(c)\<close> for a single separator character.\<close>

fun split_on :: "char \<Rightarrow> string \<Rightarrow> string list" where
  "split_on c [] = [[]]"
| "split_on c (x # xs) =
     (if x = c then [] # split_on c xs
      else (case split_on c xs of [] \<Rightarrow> [[x]] | y # ys \<Rightarrow> (x # y) # ys))"

text \<open>
  \<open>pathlib.PurePosixPath\<close>: a path is kept as the string it was built from. Its parts
  are the components between slashes, with empty components and \<open>.\<close> dropped; its name
  (\<open>path_name\<close>) is the last part (empty when there is none), and its stem
  (\<open>path_stem\<close>) is the name without its
  last suffix, where a suffix starts at a dot that is neither the first nor the last
  character of the name.
\<close>

type_synonym path = string

definition parts :: "path \<Rightarrow> string list" where
  "parts p = filter (\<lambda>c. c \<noteq> [] \<and> c \<noteq> ''.'') (split_on CHR ''/'' p)"

definition path_name :: "path \<Rightarrow> string" where
  "path_name p = (if parts p = [] then [] else last (parts p))"

text \<open>\<open>str.rfind('.')\<close>: the index of the last dot, \<open>None\<close> for Python's \<open>-1\<close>.\<close>

fun rfind_dot :: "string \<Rightarrow> nat option" where
  "rfind_dot [] = None"
| "rfind_dot (x # xs) =
     (case rfind_dot xs of
        Some i \<Rightarrow> Some (Suc i)
      | None \<Rightarrow> (if x = CHR ''.'' then Some 0 else None))"

definition path_stem :: "path \<Rightarrow> string" where
  "path_stem p =
     (let n = path_name p in
      case rfind_dot n of
        None \<Rightarrow> n
      | Some i \<Rightarrow> (if 0 < i \<and> i < length n - 1 then take i n else n))"

text \<open>
  \<open>Path.__truediv__\<close>: joining with an absolute right operand gives the right operand;
  otherwise the operands are joined by one slash.
\<close>

definition joinpath :: "path \<Rightarrow> string \<Rightarrow> path" where
  "joinpath d x =
     (if startswith x ''/'' then x
      else if endswith d ''/'' then d @ x
      else d @ ''/'' @ x)"

section \<open>Values, exceptions and the interpreter state\<close>

text \<open>
  The exceptions that the program raises or catches. \<open>SystemExit\<close> and
  \<open>KeyboardInterrupt\<close> derive from \<open>BaseException\<close> only; every other one derives
  from \<open>Exception\<close>. \<open>ModuleNotFoundError\<close> is an \<open>ImportError\<close>;
  \<open>UserError\<close> stands for any other \<open>Exception\<close> raised by loaded code.
\<close>

datatype exn =
    TypeError | ValueError | AttributeError | KeyError
  | FileNotFoundError | ImportError | ModuleNotFoundError
  | SystemExit | KeyboardInterrupt | UserError string

fun is_Exception :: "exn \<Rightarrow> bool" where
  "is_Exception SystemExit = False"
| "is_Exception KeyboardInterrupt = False"
| "is_Exception _ = True"

text \<open>
  Functions are values. The lambda that \<open>DemoFinder.exec_module\<close> creates is a
  constructor of its own; a function defined by loaded code is a reference into the
  environment's code table.
\<close>

datatype fun_ref = HelloLambda | UserFun nat

datatype pyval = IntV int | StrV string | NoneV | FunV fun_ref

datatype loader = DemoFinderLoader | FileLoader path | HostLoader string

record module_spec =
  spec_name :: string
  spec_loader :: loader
  spec_origin :: "string option"
  has_location :: bool

text \<open>
  A module object: \<open>__name__\<close>, \<open>__file__\<close> and \<open>__spec__\<close> as fields, every other
  attribute in the namespace \<open>attrs\<close>.
\<close>

record module_obj =
  mod_name :: string
  mod_file :: "string option"
  mod_spec :: "module_spec option"
  attrs :: "string \<rightharpoonup> pyval"

datatype finder = DemoFinder | HostFinder nat

type_synonym mod_id = nat

text \<open>
  The interpreter state: the heap of module objects (a module is referred to by its
  address, so that two references are the identical object exactly when the addresses
  are equal), \<open>sys.modules\<close>, \<open>sys.meta_path\<close> and the lines printed so far.
\<close>

record pstate =
  objs :: "mod_id \<Rightarrow> module_obj"
  next_id :: mod_id
  sys_modules :: "string \<rightharpoonup> mod_id"
  meta_path :: "finder list"
  stdout :: "string list"

text \<open>
  Code that the program loads or calls is not part of the program: it is any function
  on the interpreter state. \<open>content\<close> is the body of a module (what
  \<open>loader.exec_module\<close> runs against a module object), ending normally or with an
  exception; \<open>callable\<close> is a function object: the numbers of positional arguments
  its signature accepts, and its body.
\<close>

type_synonym content = "pstate \<Rightarrow> mod_id \<Rightarrow> exn option \<times> pstate"

record callable =
  accepts :: "nat \<Rightarrow> bool"
  body :: "pstate \<Rightarrow> string list list \<Rightarrow> (exn + pyval) \<times> pstate"

text \<open>
  The host: the file system (\<open>Path.resolve\<close>, \<open>Path.exists\<close>, the entries of a
  directory), the loader that \<open>importlib\<close> picks for a file and what executing that
  file does, the finders of the interpreter, the code table, and \<open>int()\<close> on strings.
\<close>

record env =
  resolve :: "path \<Rightarrow> path"
  path_exists :: "path \<Rightarrow> bool"
  listdir :: "path \<Rightarrow> string list"
  supported_file :: "path \<Rightarrow> bool"
  exec_file :: "path \<Rightarrow> content"
  host_find_spec :: "nat \<Rightarrow> string \<Rightarrow> module_spec option"
  exec_host :: "string \<Rightarrow> content"
  code :: "nat \<Rightarrow> callable"
  int_of_str :: "string \<Rightarrow> int option"

section \<open>Listing the plugin directory\<close>

record PluginInfo =
  name :: string
  origin :: string

text \<open>\<open>plugin_dir.glob("*.py")\<close>: the entries whose name ends in \<open>.py\<close>, as paths.\<close>

definition glob_py :: "env \<Rightarrow> path \<Rightarrow> path list" where
  "glob_py e d = map (joinpath d) (filter (\<lambda>n. endswith n ''.py'') (listdir e d))"

text \<open>The loop of \<open>list_plugins\<close> over the sorted paths.\<close>

fun list_loop :: "path list \<Rightarrow> PluginInfo list \<Rightarrow> PluginInfo list" where
  "list_loop [] out = out"
| "list_loop (p # ps) out =
     (if startswith (path_name p) ''_'' then list_loop ps out
      else list_loop ps (out @ [\<lparr>name = path_stem p, origin = p\<rparr>]))"

definition list_plugins :: "env \<Rightarrow> path \<Rightarrow> PluginInfo list" where
  "list_plugins e plugin_dir =
     (let d = resolve e plugin_dir in
      if \<not> path_exists e d then []
      else list_loop (sort (glob_py e d)) [])"

section \<open>The import machinery\<close>

text \<open>
  \<open>importlib.util.module_from_spec\<close>: a new module object with an empty namespace,
  named after the spec (\<open>create_module\<close> of every loader here returns \<open>None\<close>, so
  the default module is created).
\<close>

definition module_from_spec :: "module_spec \<Rightarrow> pstate \<Rightarrow> mod_id \<times> pstate" where
  "module_from_spec sp s =
     (let mid = next_id s;
          m = \<lparr>mod_name = spec_name sp,
               mod_file = (if has_location sp then spec_origin sp else None),
               mod_spec = Some sp,
               attrs = Map.empty\<rparr>
      in (mid, s\<lparr>objs := (objs s)(mid := m), next_id := Suc mid\<rparr>))"

text \<open>\<open>module.attr = v\<close> on the module object at an address.\<close>

definition setattr :: "pstate \<Rightarrow> mod_id \<Rightarrow> string \<Rightarrow> pyval \<Rightarrow> pstate" where
  "setattr s mid k v =
     s\<lparr>objs := (objs s)(mid := (objs s mid)\<lparr>attrs := (attrs (objs s mid))(k \<mapsto> v)\<rparr>)\<rparr>"

definition hasattr :: "module_obj \<Rightarrow> string \<Rightarrow> bool" where
  "hasattr m k = (attrs m k \<noteq> None)"

subsection \<open>\<open>import_hook_demo.py\<close>: \<open>DemoFinder\<close>\<close>

definition spec_from_loader :: "string \<Rightarrow> loader \<Rightarrow> module_spec" where
  "spec_from_loader fullname l =
     \<lparr>spec_name = fullname, spec_loader = l, spec_origin = None, has_location = False\<rparr>"

definition DemoFinder_find_spec :: "string \<Rightarrow> module_spec option" where
  "DemoFinder_find_spec fullname =
     (if fullname = ''demo_hook'' then Some (spec_from_loader fullname DemoFinderLoader)
      else None)"

definition DemoFinder_exec_module :: content where
  "DemoFinder_exec_module s module =
     (let s1 = setattr s module ''VALUE'' (IntV 123);
          s2 = setattr s1 module ''hello'' (FunV HelloLambda);
          s3 = setattr s2 module ''__doc__''
                 (StrV ''Synthetic module created at import time by DemoFinder'')
      in (None, s3))"

text \<open>\<open>sys.meta_path.insert(0, DemoFinder())\<close> in \<open>main\<close> of the demo.\<close>

definition install_DemoFinder :: "pstate \<Rightarrow> pstate" where
  "install_DemoFinder s = s\<lparr>meta_path := DemoFinder # meta_path s\<rparr>"

subsection \<open>Finders and loaders\<close>

fun finder_find_spec :: "env \<Rightarrow> finder \<Rightarrow> string \<Rightarrow> module_spec option" where
  "finder_find_spec e DemoFinder fullname = DemoFinder_find_spec fullname"
| "finder_find_spec e (HostFinder k) fullname = host_find_spec e k fullname"

text \<open>The finders of \<open>sys.meta_path\<close> are asked in order; the first spec wins.\<close>

fun find_spec_chain :: "env \<Rightarrow> finder list \<Rightarrow> string \<Rightarrow> module_spec option" where
  "find_spec_chain e [] fullname = None"
| "find_spec_chain e (f # fs) fullname =
     (case finder_find_spec e f fullname of
        Some sp \<Rightarrow> Some sp
      | None \<Rightarrow> find_spec_chain e fs fullname)"

fun exec_module :: "env \<Rightarrow> loader \<Rightarrow> content" where
  "exec_module e DemoFinderLoader = DemoFinder_exec_module"
| "exec_module e (FileLoader p) = exec_file e p"
| "exec_module e (HostLoader k) = exec_host e k"

text \<open>
  \<open>importlib.util.spec_from_file_location\<close>: \<open>None\<close> when no loader handles the
  file's suffix.
\<close>

definition spec_from_file_location :: "env \<Rightarrow> string \<Rightarrow> path \<Rightarrow> module_spec option" where
  "spec_from_file_location e module_name location =
     (if supported_file e location
      then Some \<lparr>spec_name = module_name, spec_loader = FileLoader location,
                  spec_origin = Some location, has_location = True\<rparr>
      else None)"

text \<open>
  \<open>importlib.import_module\<close>: a relative name (no package is given) is a
  \<open>TypeError\<close>, the empty name a \<open>ValueError\<close>; otherwise the result is the module
  of \<open>sys.modules\<close> when there is one; otherwise the spec is searched on
  \<open>sys.meta_path\<close>, the new module is entered in \<open>sys.modules\<close>, executed, and
  removed again when its execution raises. Packages are not modelled: a dotted name is
  looked up like any other name, without importing a parent first.
\<close>

definition load_unlocked :: "env \<Rightarrow> pstate \<Rightarrow> module_spec \<Rightarrow> (exn + mod_id) \<times> pstate" where
  "load_unlocked e s sp =
     (let (module, s1) = module_from_spec sp s;
          s2 = s1\<lparr>sys_modules := (sys_modules s1)(spec_name sp \<mapsto> module)\<rparr>
      in case exec_module e (spec_loader sp) s2 module of
           (Some ex, s3) \<Rightarrow>
             (Inl ex, s3\<lparr>sys_modules := (sys_modules s3)(spec_name sp := None)\<rparr>)
         | (None, s3) \<Rightarrow>
             (case sys_modules s3 (spec_name sp) of
                None \<Rightarrow> (Inl KeyError, s3)
              | Some m \<Rightarrow> (Inr m, s3)))"

definition import_module :: "env \<Rightarrow> pstate \<Rightarrow> string \<Rightarrow> (exn + mod_id) \<times> pstate" where
  "import_module e s nm =
     (if startswith nm ''.'' then (Inl TypeError, s)
      else if nm = [] then (Inl ValueError, s)
      else case sys_modules s nm of
             Some m \<Rightarrow> (Inr m, s)
           | None \<Rightarrow>
               (case find_spec_chain e (meta_path s) nm of
                  None \<Rightarrow> (Inl ModuleNotFoundError, s)
                | Some sp \<Rightarrow> load_unlocked e s sp))"

text \<open>
  \<open>importlib.reload\<close>: the module must be the one cached under its name (the name
  of its spec, or \<open>__name__\<close> without one); its spec is searched again on
  \<open>sys.meta_path\<close> (and \<open>__spec__\<close> is assigned the result, also when it is
  \<open>None\<close>). The module must also be the one cached under the name of the new spec;
  then the attributes of the spec are set again and the content is executed against the
  same module object, whose namespace is kept. Whatever the execution does, the entry
  of the spec's name is then taken out of \<open>sys.modules\<close> and put back, which is a
  \<open>KeyError\<close> when the content has removed it. The result is what \<open>sys.modules\<close>
  holds under the name afterwards. Here too a dotted name is treated like any other
  name.
\<close>

definition reload :: "env \<Rightarrow> pstate \<Rightarrow> mod_id \<Rightarrow> (exn + mod_id) \<times> pstate" where
  "reload e s module =
     (let m = objs s module;
          nm = (case mod_spec m of Some sp \<Rightarrow> spec_name sp | None \<Rightarrow> mod_name m)
      in if sys_modules s nm \<noteq> Some module then (Inl ImportError, s)
         else case find_spec_chain e (meta_path s) nm of
                None \<Rightarrow>
                  (Inl ModuleNotFoundError,
                   s\<lparr>objs := (objs s)(module := m\<lparr>mod_spec := None\<rparr>)\<rparr>)
              | Some sp \<Rightarrow>
                  (if sys_modules s (spec_name sp) \<noteq> Some module
                   then (Inl ImportError,
                         s\<lparr>objs := (objs s)(module := m\<lparr>mod_spec := Some sp\<rparr>)\<rparr>)
                   else
                     (let m1 = m\<lparr>mod_name := spec_name sp,
                                  mod_file := (if has_location sp then spec_origin sp
                                               else mod_file m),
                                  mod_spec := Some sp\<rparr>;
                          s1 = s\<lparr>objs := (objs s)(module := m1)\<rparr>
                      in case exec_module e (spec_loader sp) s1 module of
                           (r, s2) \<Rightarrow>
                             (case sys_modules s2 (spec_name sp) of
                                None \<Rightarrow> (Inl KeyError, s2)
                              | Some m0 \<Rightarrow>
                                  (case r of
                                     Some ex \<Rightarrow> (Inl ex, s2)
                                   | None \<Rightarrow>
                                       (case sys_modules s2 nm of
                                          None \<Rightarrow> (Inl KeyError, s2)
                                        | Some m' \<Rightarrow> (Inr m', s2)))))))"

section \<open>\<open>task_runner.py\<close>: loading a plugin\<close>

definition import_by_name :: "env \<Rightarrow> pstate \<Rightarrow> string \<Rightarrow> (exn + mod_id) \<times> pstate" where
  "import_by_name e s module_name = import_module e s module_name"

definition import_from_file :: "env \<Rightarrow> pstate \<Rightarrow> string \<Rightarrow> path \<Rightarrow> (exn + mod_id) \<times> pstate" where
  "import_from_file e s module_name file_path =
     (let fp = resolve e file_path in
      if \<not> path_exists e fp then (Inl FileNotFoundError, s)
      else case spec_from_file_location e module_name fp of
             None \<Rightarrow> (Inl ImportError, s)
           | Some sp \<Rightarrow>
               (let (module, s1) = module_from_spec sp s;
                    s2 = s1\<lparr>sys_modules := (sys_modules s1)(module_name \<mapsto> module)\<rparr>
                in case exec_module e (spec_loader sp) s2 module of
                     (Some ex, s3) \<Rightarrow> (Inl ex, s3)
                   | (None, s3) \<Rightarrow> (Inr module, s3)))"

definition load_plugin :: "env \<Rightarrow> pstate \<Rightarrow> string \<Rightarrow> path \<Rightarrow> (exn + mod_id \<times> string) \<times> pstate" where
  "load_plugin e s target plugin_dir =
     (let plugin_dir = resolve e plugin_dir in
      if startswith target ''path:'' then
        (let path_str = drop (length ''path:'') target;
             p = path_str;
             mod_name = ''__plugin__'' @ path_stem p
         in case import_from_file e s mod_name p of
              (Inl ex, s1) \<Rightarrow> (Inl ex, s1)
            | (Inr m, s1) \<Rightarrow> (Inr (m, ''file:'' @ resolve e p), s1))
      else if startswith target ''name:'' then
        (let nm = drop (length ''name:'') target
         in case import_by_name e s nm of
              (Inl ex, s1) \<Rightarrow> (Inl ex, s1)
            | (Inr m, s1) \<Rightarrow> (Inr (m, ''name:'' @ nm), s1))
      else
        (let p = joinpath plugin_dir (target @ ''.py'');
             mod_name = ''__plugin__'' @ target
         in case import_from_file e s mod_name p of
              (Inl ex, s1) \<Rightarrow> (Inl ex, s1)
            | (Inr m, s1) \<Rightarrow> (Inr (m, ''plugin:'' @ resolve e p), s1)))"

section \<open>\<open>task_runner.py\<close>: calling a plugin\<close>

definition callable_of :: "env \<Rightarrow> fun_ref \<Rightarrow> callable" where
  "callable_of e r =
     (case r of
        HelloLambda \<Rightarrow>
          \<lparr>accepts = (\<lambda>n. n = 0), body = (\<lambda>s args. (Inr (StrV ''hook works''), s))\<rparr>
      | UserFun k \<Rightarrow> code e k)"

text \<open>
  A call \<open>fn(*args)\<close>: \<open>TypeError\<close> when \<open>fn\<close> is not callable or its signature
  does not accept the number of arguments; otherwise whatever the body does.
\<close>

definition call :: "env \<Rightarrow> pstate \<Rightarrow> pyval \<Rightarrow> string list list \<Rightarrow> (exn + pyval) \<times> pstate" where
  "call e s fn args =
     (case fn of
        FunV r \<Rightarrow>
          (if accepts (callable_of e r) (length args) then body (callable_of e r) s args
           else (Inl TypeError, s))
      | _ \<Rightarrow> (Inl TypeError, s))"

text \<open>\<open>int(v)\<close>.\<close>

definition py_int :: "env \<Rightarrow> pyval \<Rightarrow> exn + int" where
  "py_int e v =
     (case v of
        IntV n \<Rightarrow> Inr n
      | StrV str \<Rightarrow> (case int_of_str e str of Some n \<Rightarrow> Inr n | None \<Rightarrow> Inl ValueError)
      | NoneV \<Rightarrow> Inl TypeError
      | FunV r \<Rightarrow> Inl TypeError)"

text \<open>\<open>int(fn(*args))\<close>.\<close>

definition call_int :: "env \<Rightarrow> pstate \<Rightarrow> pyval \<Rightarrow> string list list \<Rightarrow> (exn + int) \<times> pstate" where
  "call_int e s fn args =
     (case call e s fn args of
        (Inl ex, s1) \<Rightarrow> (Inl ex, s1)
      | (Inr v, s1) \<Rightarrow> (py_int e v, s1))"

definition call_plugin :: "env \<Rightarrow> pstate \<Rightarrow> mod_id \<Rightarrow> string list \<Rightarrow> (exn + int) \<times> pstate" where
  "call_plugin e s module argv =
     (case attrs (objs s module) ''main'' of
        None \<Rightarrow> (Inl AttributeError, s)
      | Some fn \<Rightarrow>
          (case call_int e s fn [argv] of
             (Inl ex, s1) \<Rightarrow>
               (if ex = TypeError then call_int e s1 fn [] else (Inl ex, s1))
           | (Inr n, s1) \<Rightarrow> (Inr n, s1)))"

section \<open>\<open>task_runner.py\<close>: the \<open>run\<close> command\<close>

definition print_line :: "pstate \<Rightarrow> string \<Rightarrow> pstate" where
  "print_line s l = s\<lparr>stdout := stdout s @ [l]\<rparr>"

text \<open>\<open>repr(e)\<close>; the messages of exceptions are not modelled.\<close>

fun repr_exn :: "exn \<Rightarrow> string" where
  "repr_exn TypeError = ''TypeError()''"
| "repr_exn ValueError = ''ValueError()''"
| "repr_exn AttributeError = ''AttributeError()''"
| "repr_exn KeyError = ''KeyError()''"
| "repr_exn FileNotFoundError = ''FileNotFoundError()''"
| "repr_exn ImportError = ''ImportError()''"
| "repr_exn ModuleNotFoundError = ''ModuleNotFoundError()''"
| "repr_exn SystemExit = ''SystemExit()''"
| "repr_exn KeyboardInterrupt = ''KeyboardInterrupt()''"
| "repr_exn (UserError c) = c @ ''()''"

record run_args =
  target :: string
  reload_flag :: bool
  plugin_args :: "string list"

text \<open>
  The block \<open>if args.reload: try: ... except Exception as e: ...\<close> of \<open>main\<close>: the
  module and label to go on with, or the exception that leaves \<open>main\<close>.
\<close>

definition reload_step ::
  "env \<Rightarrow> pstate \<Rightarrow> bool \<Rightarrow> mod_id \<Rightarrow> string \<Rightarrow> (exn + mod_id \<times> string) \<times> pstate" where
  "reload_step e s flag module label =
     (if flag then
        (case reload e s module of
           (Inr m', s1) \<Rightarrow> (Inr (m', label @ '' (reloaded)''), s1)
         | (Inl ex, s1) \<Rightarrow>
             (if is_Exception ex
              then (Inr (module, label),
                    print_line s1 (''[reload] failed, continuing without reload: '' @ repr_exn ex))
              else (Inl ex, s1)))
      else (Inr (module, label), s))"

text \<open>The three lines that \<open>main\<close> prints about the module it is going to call.\<close>

definition run_banner :: "pstate \<Rightarrow> mod_id \<Rightarrow> string \<Rightarrow> pstate" where
  "run_banner s module label =
     (let s1 = print_line s (''[run] loaded: '' @ label);
          s2 = print_line s1 (''[run] module.__name__: '' @ mod_name (objs s1 module));
          s3 = print_line s2 (''[run] module.__file__: '' @
                 (case mod_file (objs s2 module) of None \<Rightarrow> ''builtin'' | Some f \<Rightarrow> f))
      in s3)"

text \<open>The branch \<open>if args.cmd == "run":\<close> of \<open>main\<close>.\<close>

definition main_run :: "env \<Rightarrow> pstate \<Rightarrow> path \<Rightarrow> run_args \<Rightarrow> (exn + int) \<times> pstate" where
  "main_run e s plugin_dir args =
     (case load_plugin e s (target args) plugin_dir of
        (Inl ex, s1) \<Rightarrow> (Inl ex, s1)
      | (Inr (module, label), s1) \<Rightarrow>
          (case reload_step e s1 (reload_flag args) module label of
             (Inl ex, s2) \<Rightarrow> (Inl ex, s2)
           | (Inr (module, label), s2) \<Rightarrow>
               (let s3 = run_banner s2 module label;
                    plugin_argv = filter (\<lambda>a. a \<noteq> ''--'') (plugin_args args)
                in call_plugin e s3 module plugin_argv)))"

section \<open>Targets and intents\<close>

text \<open>
  The specification's view of \<open>load_plugin\<close>, in its own words: a target string is
  parsed into one of three intents by ordered literal prefixes, and each intent is
  loaded under its logical name. \<open>spec_parse\<close> and \<open>spec_load\<close> follow the
  specification; \<open>load_plugin\<close> above follows the source.
\<close>

datatype intent = ByRegisteredName string | ByExplicitPath path | ByConventionDir path string

definition spec_parse :: "string \<Rightarrow> path \<Rightarrow> intent" where
  "spec_parse tgt baseDir =
     (if startswith tgt ''path:'' then ByExplicitPath (drop (length ''path:'') tgt)
      else if startswith tgt ''name:'' then ByRegisteredName (drop (length ''name:'') tgt)
      else ByConventionDir baseDir tgt)"

text \<open>The result of an import, paired with the origin label on success.\<close>

definition with_label :: "string \<Rightarrow> (exn + mod_id) \<times> pstate \<Rightarrow> (exn + mod_id \<times> string) \<times> pstate" where
  "with_label l r = (case r of (Inl ex, s1) \<Rightarrow> (Inl ex, s1) | (Inr m, s1) \<Rightarrow> (Inr (m, l), s1))"

fun spec_load :: "env \<Rightarrow> pstate \<Rightarrow> intent \<Rightarrow> (exn + mod_id \<times> string) \<times> pstate" where
  "spec_load e s (ByExplicitPath p) =
     with_label (''file:'' @ resolve e p) (import_from_file e s (''__plugin__'' @ path_stem p) p)"
| "spec_load e s (ByRegisteredName n) =
     with_label (''name:'' @ n) (import_by_name e s n)"
| "spec_load e s (ByConventionDir d t) =
     with_label (''plugin:'' @ resolve e (joinpath d (t @ ''.py'')))
       (import_from_file e s (''__plugin__'' @ t) (joinpath d (t @ ''.py'')))"

text \<open>
  The name under which \<open>load_plugin\<close> imports a target (\<open>mod_name\<close> in its first
  and last branch, \<open>name\<close> in the second): the key of the module in \<open>sys.modules\<close>.
\<close>

definition plugin_mod_name :: "string \<Rightarrow> string" where
  "plugin_mod_name tgt =
     (if startswith tgt ''path:'' then ''__plugin__'' @ path_stem (drop (length ''path:'') tgt)
      else if startswith tgt ''name:'' then drop (length ''name:'') tgt
      else ''__plugin__'' @ tgt)"

section \<open>Concrete hosts and states\<close>

text \<open>
  A fresh interpreter state with one host finder, and a host with an empty file system
  that knows no module. The examples below change single fields of them.
\<close>

definition empty_module :: module_obj where
  "empty_module = \<lparr>mod_name = [], mod_file = None, mod_spec = None, attrs = Map.empty\<rparr>"

definition init_state :: pstate where
  "init_state = \<lparr>objs = (\<lambda>i. empty_module), next_id = 0, sys_modules = Map.empty,
                  meta_path = [HostFinder 0], stdout = []\<rparr>"

definition no_effect :: content where
  "no_effect s mid = (None, s)"

definition base_env :: env where
  "base_env = \<lparr>resolve = (\<lambda>p. p), path_exists = (\<lambda>p. False), listdir = (\<lambda>p. []),
                supported_file = (\<lambda>p. endswith p ''.py''), exec_file = (\<lambda>p. no_effect),
                host_find_spec = (\<lambda>k n. None), exec_host = (\<lambda>n. no_effect),
                code = (\<lambda>k. \<lparr>accepts = (\<lambda>n. False), body = (\<lambda>s a. (Inr NoneV, s))\<rparr>),
                int_of_str = (\<lambda>s. None)\<rparr>"

text \<open>
  A plugin \<open>./plugins/hello.py\<close> that defines \<open>main(argv)\<close>, returning the number
  of strings in \<open>argv\<close>.
\<close>

definition hello_content :: content where
  "hello_content s mid = (None, setattr s mid ''main'' (FunV (UserFun 0)))"

definition count_args :: callable where
  "count_args = \<lparr>accepts = (\<lambda>n. n = 1),
                  body = (\<lambda>s args. (Inr (IntV (int (length (concat args)))), s))\<rparr>"

definition hello_env :: env where
  "hello_env = base_env\<lparr>path_exists := (\<lambda>p. p = ''./plugins/hello.py''),
                         exec_file := (\<lambda>p. hello_content),
                         code := (\<lambda>k. count_args)\<rparr>"

definition hello_args :: run_args where
  "hello_args = \<lparr>target = ''hello'', reload_flag = False,
                  plugin_args = [''--'', ''a'', ''--'', ''b'', ''--'']\<rparr>"

definition hello_loaded :: pstate where
  "hello_loaded = snd (load_plugin hello_env init_state ''hello'' ''./plugins'')"

text \<open>
  The entries of a directory are file names: not empty, not \<open>.\<close>, without a slash.
\<close>

definition valid_entry :: "string \<Rightarrow> bool" where
  "valid_entry n = (n \<noteq> [] \<and> n \<noteq> ''.'' \<and> CHR ''/'' \<notin> set n)"

text \<open>The string that \<open>joinpath\<close> puts in front of such an entry.\<close>

definition dir_prefix :: "path \<Rightarrow> string" where
  "dir_prefix d = (if endswith d ''/'' then d else d @ ''/'')"

text \<open>
  A directory \<open>/plug\<close> holding \<open>b.py\<close>, \<open>_private.py\<close>, \<open>notes.txt\<close> and
  \<open>a.py\<close>, scanned in that order.
\<close>

definition listing_env :: env where
  "listing_env = base_env\<lparr>path_exists := (\<lambda>p. p = ''/plug''),
      listdir := (\<lambda>p. if p = ''/plug'' then [''b.py'', ''_private.py'', ''notes.txt'', ''a.py''] else [])\<rparr>"

text \<open>A host with two different files called \<open>hello.py\<close>.\<close>

definition two_dirs_env :: env where
  "two_dirs_env = base_env\<lparr>path_exists :=
      (\<lambda>p. p = ''./plugins/hello.py'' \<or> p = ''/other/hello.py'')\<rparr>"

text \<open>
  A plugin \<open>/p/bad.py\<close> that looks itself up in \<open>sys.modules\<close> while it is
  executed: when it finds its own module object there, it binds \<open>SEEN = 1\<close> and then
  raises.
\<close>

definition self_check :: content where
  "self_check s mid =
     (if sys_modules s (mod_name (objs s mid)) = Some mid
      then (Some (UserError ''RuntimeError''), setattr s mid ''SEEN'' (IntV 1))
      else (None, s))"

definition self_check_env :: env where
  "self_check_env = base_env\<lparr>path_exists := (\<lambda>p. p = ''/p/bad.py''),
                              exec_file := (\<lambda>p. self_check)\<rparr>"

definition bad_loaded :: pstate where
  "bad_loaded = snd (import_from_file self_check_env init_state ''__plugin__bad'' ''/p/bad.py'')"










text \<open>
  Entry points: \<open>picky\<close> is \<open>def main(*argv)\<close> raising \<open>TypeError\<close> itself when
  it is given arguments and returning 7 otherwise; \<open>returns_none\<close> takes any arguments,
  prints a line and returns \<open>None\<close> when given some, 0 otherwise; \<open>zero_arg\<close> is
  \<open>def main()\<close>; \<open>raises_value_error\<close> is \<open>def main(argv)\<close> raising
  \<open>ValueError\<close>. \<open>main_state k\<close> has a module at address 0 whose \<open>main\<close> is the
  function \<open>k\<close> of the table.
\<close>

definition picky :: callable where
  "picky = \<lparr>accepts = (\<lambda>n. True),
             body = (\<lambda>s args. if args = [] then (Inr (IntV 7), s) else (Inl TypeError, s))\<rparr>"

definition returns_none :: callable where
  "returns_none = \<lparr>accepts = (\<lambda>n. True),
             body = (\<lambda>s args. if args = [] then (Inr (IntV 0), s)
                                else (Inr NoneV, print_line s ''ran''))\<rparr>"

definition zero_arg :: callable where
  "zero_arg = \<lparr>accepts = (\<lambda>n. n = 0), body = (\<lambda>s args. (Inr (IntV 3), s))\<rparr>"

definition raises_value_error :: callable where
  "raises_value_error = \<lparr>accepts = (\<lambda>n. n = 1), body = (\<lambda>s args. (Inl ValueError, s))\<rparr>"

definition calls_env :: env where
  "calls_env = base_env\<lparr>code := (\<lambda>k. if k = 0 then picky else if k = 1 then returns_none
      else if k = 2 then zero_arg else if k = 3 then count_args else raises_value_error)\<rparr>"

definition main_state :: "nat \<Rightarrow> pstate" where
  "main_state k = setattr init_state 0 ''main'' (FunV (UserFun k))"

text \<open>
  A run of the plugin \<open>hello\<close> with \<open>--reload\<close>, and an importable module
  \<open>once\<close> whose body defines \<open>main\<close> the first time it is executed and calls
  \<open>sys.exit()\<close> when it is executed again.
\<close>

definition hello_reload_args :: run_args where
  "hello_reload_args = \<lparr>target = ''hello'', reload_flag = True, plugin_args = [''a'']\<rparr>"

definition hello_reload_failed :: pstate where
  "hello_reload_failed = snd (reload hello_env hello_loaded 0)"

definition exit_on_second :: content where
  "exit_on_second s mid =
     (if attrs (objs s mid) ''READY'' \<noteq> None then (Some SystemExit, s)
      else (None, setattr (setattr s mid ''READY'' (IntV 1)) mid ''main'' (FunV (UserFun 2))))"

definition exit_env :: env where
  "exit_env = calls_env\<lparr>host_find_spec := (\<lambda>k n. if n = ''once''
          then Some \<lparr>spec_name = n, spec_loader = HostLoader n,
                      spec_origin = Some ''/lib/once.py'', has_location = True\<rparr>
          else None),
       exec_host := (\<lambda>n. exit_on_second)\<rparr>"

definition once_args :: "bool \<Rightarrow> run_args" where
  "once_args r = \<lparr>target = ''name:once'', reload_flag = r, plugin_args = []\<rparr>"

definition once_loaded :: pstate where
  "once_loaded = snd (load_plugin exit_env init_state ''name:once'' ''./plugins'')"

text \<open>
  Two code tables agree away from the separator when their functions accept the same
  numbers of arguments and behave alike on every argument tuple in which no argument
  contains the string \<open>--\<close>. \<open>separator_sensitive\<close> is \<open>count_args\<close> except that it
  returns 99 when an argument contains \<open>--\<close>.
\<close>

definition agree_without_separator :: "(nat \<Rightarrow> callable) \<Rightarrow> (nat \<Rightarrow> callable) \<Rightarrow> bool" where
  "agree_without_separator c c' =
     (\<forall>k. accepts (c k) = accepts (c' k) \<and>
          (\<forall>s args. (\<forall>a \<in> set args. ''--'' \<notin> set a) \<longrightarrow> body (c k) s args = body (c' k) s args))"

definition separator_sensitive :: callable where
  "separator_sensitive =
     \<lparr>accepts = (\<lambda>n. n = 1),
      body = (\<lambda>s args. if list_ex (\<lambda>a. ''--'' \<in> set a) args then (Inr (IntV 99), s)
                         else body count_args s args)\<rparr>"

section \<open>Invocation without an entry point\<close>

text \<open>
  Claim C8. A module that has no attribute \<open>main\<close> cannot be invoked:
  \<open>call_plugin\<close> raises \<open>AttributeError\<close>, and the interpreter state (the module
  cache \<open>sys.modules\<close> included) is the one it was called in.
\<close>

theorem call_plugin_missing_main:
  "\<not> hasattr (objs s module) ''main'' \<Longrightarrow>
   call_plugin e s module argv = (Inl AttributeError, s)"
  by (simp add: hasattr_def call_plugin_def)

theorem call_plugin_missing_main_witness:
  "\<not> hasattr (objs init_state 0) ''main'' \<and>
   call_plugin base_env init_state 0 [''x'', ''y''] = (Inl AttributeError, init_state)"
proof -
  have h: "\<not> hasattr (objs init_state 0) ''main''"
    by (simp add: hasattr_def init_state_def empty_module_def)
  show ?thesis using h call_plugin_missing_main [OF h] by simp
qed

section \<open>The arguments handed to the plugin\<close>

lemma hello_load:
  "load_plugin hello_env init_state ''hello'' ''./plugins''
     = (Inr (0, ''plugin:./plugins/hello.py''), hello_loaded)"
  unfolding hello_loaded_def
  by (simp add: load_plugin_def startswith_def endswith_def joinpath_def import_from_file_def
      hello_env_def base_env_def spec_from_file_location_def module_from_spec_def
      hello_content_def init_state_def Let_def)

text \<open>
  Nothing that \<open>main\<close> does before the call depends on the code table, and the call
  itself reads the table only at argument tuples free of \<open>--\<close>.
\<close>

lemma exec_module_code [simp]: "exec_module (e\<lparr>code := c\<rparr>) l = exec_module e l"
  by (cases l) simp_all

lemma find_spec_chain_code [simp]:
  "find_spec_chain (e\<lparr>code := c\<rparr>) fs n = find_spec_chain e fs n"
proof (induction fs)
  case Nil
  then show ?case by simp
next
  case (Cons f fs)
  then show ?case by (cases f) (simp_all split: option.splits)
qed

lemma import_from_file_code [simp]:
  "import_from_file (e\<lparr>code := c\<rparr>) s n p = import_from_file e s n p"
  by (simp add: import_from_file_def spec_from_file_location_def Let_def
      split: option.splits prod.splits)

lemma load_unlocked_code [simp]:
  "load_unlocked (e\<lparr>code := c\<rparr>) s sp = load_unlocked e s sp"
  by (simp add: load_unlocked_def Let_def split: option.splits prod.splits)

lemma import_by_name_code [simp]:
  "import_by_name (e\<lparr>code := c\<rparr>) s n = import_by_name e s n"
  by (simp add: import_by_name_def import_module_def split: option.splits)

lemma load_plugin_code [simp]:
  "load_plugin (e\<lparr>code := c\<rparr>) s t d = load_plugin e s t d"
  by (simp add: load_plugin_def Let_def split: prod.splits sum.splits)

lemma reload_code [simp]: "reload (e\<lparr>code := c\<rparr>) s m = reload e s m"
  by (simp add: reload_def Let_def split: option.splits prod.splits)

lemma reload_step_code [simp]:
  "reload_step (e\<lparr>code := c\<rparr>) s f m l = reload_step e s f m l"
  by (simp add: reload_step_def split: prod.splits sum.splits)

lemma call_code:
  assumes "agree_without_separator c (code e)" and "\<forall>a \<in> set args. ''--'' \<notin> set a"
  shows "call (e\<lparr>code := c\<rparr>) s fn args = call e s fn args"
proof (cases fn)
  case (FunV r)
  then show ?thesis
    using assms
    by (cases r) (auto simp: call_def callable_of_def agree_without_separator_def)
qed (simp_all add: call_def)

lemma py_int_code [simp]: "py_int (e\<lparr>code := c\<rparr>) v = py_int e v"
  by (simp add: py_int_def split: pyval.splits)

lemma call_plugin_code:
  assumes "agree_without_separator c (code e)" and "''--'' \<notin> set argv"
  shows "call_plugin (e\<lparr>code := c\<rparr>) s m argv = call_plugin e s m argv"
proof -
  have 1: "call (e\<lparr>code := c\<rparr>) s' fn [argv] = call e s' fn [argv]" for s' fn
    using assms by (intro call_code) simp_all
  have 0: "call (e\<lparr>code := c\<rparr>) s' fn [] = call e s' fn []" for s' fn
    using assms by (intro call_code) simp_all
  show ?thesis
    by (simp add: call_plugin_def call_int_def 0 1 split: option.splits prod.splits sum.splits)
qed

lemma main_run_code:
  assumes "agree_without_separator c (code e)"
  shows "main_run (e\<lparr>code := c\<rparr>) s d args = main_run e s d args"
proof -
  have "''--'' \<notin> set (filter (\<lambda>a. a \<noteq> ''--'') (plugin_args args))" by simp
  then show ?thesis
    using assms by (simp add: main_run_def call_plugin_code split: prod.splits sum.splits)
qed


lemma separator_sensitive_agrees:
  "agree_without_separator (\<lambda>k. separator_sensitive) (code hello_env)"
  by (auto simp: agree_without_separator_def separator_sensitive_def hello_env_def base_env_def
      count_args_def list_ex_iff)

text \<open>
  Claim C10. In a run that gets as far as calling the plugin (the load succeeds and the
  optional reload leaves a module to go on with), \<open>call_plugin\<close> is given the trailing
  arguments with every element equal to \<open>--\<close> removed, wherever and however often it
  occurs; the list it is given never contains \<open>--\<close>. Hence the entry point never
  receives \<open>--\<close>: how the functions of the code table behave on arguments containing
  \<open>--\<close> makes no difference to any run.
\<close>

theorem main_run_plugin_argv:
  assumes "load_plugin e s (target args) plugin_dir = (Inr (m, l), s1)"
    and "reload_step e s1 (reload_flag args) m l = (Inr (m', l'), s2)"
  shows "main_run e s plugin_dir args =
           call_plugin e (run_banner s2 m' l') m' (filter (\<lambda>a. a \<noteq> ''--'') (plugin_args args))
         \<and> ''--'' \<notin> set (filter (\<lambda>a. a \<noteq> ''--'') (plugin_args args))
         \<and> (agree_without_separator c (code e) \<longrightarrow>
              main_run (e\<lparr>code := c\<rparr>) s plugin_dir args = main_run e s plugin_dir args)"
  using assms main_run_code [of c e s plugin_dir args] by (simp add: main_run_def)

theorem main_run_plugin_argv_witness:
  "load_plugin hello_env init_state (target hello_args) ''./plugins''
     = (Inr (0, ''plugin:./plugins/hello.py''), hello_loaded) \<and>
   reload_step hello_env hello_loaded (reload_flag hello_args) 0 ''plugin:./plugins/hello.py''
     = (Inr (0, ''plugin:./plugins/hello.py''), hello_loaded) \<and>
   main_run hello_env init_state ''./plugins'' hello_args
     = call_plugin hello_env (run_banner hello_loaded 0 ''plugin:./plugins/hello.py'') 0
         [''a'', ''b''] \<and>
   body separator_sensitive init_state [[''--'']] = (Inr (IntV 99), init_state) \<and>
   body count_args init_state [[''--'']] = (Inr (IntV 1), init_state) \<and>
   main_run (hello_env\<lparr>code := (\<lambda>k. separator_sensitive)\<rparr>) init_state ''./plugins'' hello_args
     = main_run hello_env init_state ''./plugins'' hello_args"
proof -
  have h1: "load_plugin hello_env init_state (target hello_args) ''./plugins''
     = (Inr (0, ''plugin:./plugins/hello.py''), hello_loaded)"
    using hello_load by (simp add: hello_args_def)
  have h2: "reload_step hello_env hello_loaded (reload_flag hello_args) 0
       ''plugin:./plugins/hello.py'' = (Inr (0, ''plugin:./plugins/hello.py''), hello_loaded)"
    by (simp add: reload_step_def hello_args_def)
  note t = main_run_plugin_argv [OF h1 h2, of "\<lambda>k. separator_sensitive"]
  have a: "main_run hello_env init_state ''./plugins'' hello_args
     = call_plugin hello_env (run_banner hello_loaded 0 ''plugin:./plugins/hello.py'') 0
         [''a'', ''b'']"
    using t [THEN conjunct1] by (simp add: hello_args_def)
  have b: "main_run (hello_env\<lparr>code := (\<lambda>k. separator_sensitive)\<rparr>) init_state ''./plugins''
       hello_args = main_run hello_env init_state ''./plugins'' hello_args"
    using t [THEN conjunct2, THEN conjunct2] separator_sensitive_agrees by (rule mp)
  have c: "body separator_sensitive init_state [[''--'']] = (Inr (IntV 99), init_state)"
    "body count_args init_state [[''--'']] = (Inr (IntV 1), init_state)"
    by (simp_all add: separator_sensitive_def count_args_def)
  show ?thesis using h1 h2 a b c by (intro conjI) simp_all
qed

section \<open>The listing is sorted and filtered\<close>

lemma split_on_nonempty: "split_on c xs \<noteq> []"
  by (induction xs) (auto split: list.splits)

lemma split_on_append: "split_on c (a @ c # b) = split_on c a @ split_on c b"
proof (induction a)
  case Nil
  then show ?case by simp
next
  case (Cons x a)
  then show ?case
    using split_on_nonempty [of c a] by (cases "split_on c a") auto
qed

lemma split_on_none: "c \<notin> set n \<Longrightarrow> split_on c n = [n]"
  by (induction n) auto

lemma path_name_child:
  assumes "valid_entry n"
  shows "path_name (a @ ''/'' @ n) = n"
proof -
  have "split_on CHR ''/'' (a @ ''/'' @ n) = split_on CHR ''/'' a @ [n]"
    using assms split_on_append [of "CHR ''/''" a n] split_on_none [of "CHR ''/''" n]
    by (simp add: valid_entry_def)
  then show ?thesis using assms by (simp add: path_name_def parts_def valid_entry_def)
qed

lemma path_name_entry: "valid_entry n \<Longrightarrow> path_name n = n"
  using split_on_none [of "CHR ''/''" n]
  by (simp add: path_name_def parts_def valid_entry_def)

lemma endswith_slash: "endswith d ''/'' \<Longrightarrow> \<exists>a. d = a @ ''/''"
  apply (simp add: endswith_def)
  by (metis append_take_drop_id)

lemma joinpath_child:
  assumes "valid_entry n"
  shows "\<exists>a. joinpath d n = a @ ''/'' @ n"
proof (cases "endswith d ''/''")
  case True
  then obtain a where "d = a @ ''/''" using endswith_slash by blast
  moreover have "\<not> startswith n ''/''"
    using assms by (cases n) (auto simp: startswith_def valid_entry_def)
  ultimately show ?thesis using True by (auto simp: joinpath_def)
next
  case False
  moreover have "\<not> startswith n ''/''"
    using assms by (cases n) (auto simp: startswith_def valid_entry_def)
  ultimately show ?thesis by (auto simp: joinpath_def)
qed

lemma path_name_joinpath: "valid_entry n \<Longrightarrow> path_name (joinpath d n) = n"
  using joinpath_child [of n d] path_name_child [of n] by auto

lemma path_stem_joinpath: "valid_entry n \<Longrightarrow> path_stem (joinpath d n) = path_stem n"
  by (simp add: path_stem_def path_name_joinpath path_name_entry)

lemma joinpath_prefix: "valid_entry n \<Longrightarrow> joinpath d n = dir_prefix d @ n"
  by (cases n) (auto simp: joinpath_def dir_prefix_def startswith_def valid_entry_def)

lemma append_le_cancel: "(pre @ a \<le> pre @ b) = (a \<le> (b :: string))"
  by (induction pre) auto

lemma insort_prefix:
  "insort (pre @ x) (map ((@) pre) xs) = map ((@) pre) (insort (x :: string) xs)"
  by (induction xs) (auto simp: append_le_cancel)

lemma sort_prefix: "sort (map ((@) pre) xs) = map ((@) pre) (sort (xs :: string list))"
  by (induction xs) (auto simp: insort_prefix)

lemma list_loop_eq:
  "list_loop ps out =
     out @ map (\<lambda>p. \<lparr>name = path_stem p, origin = p\<rparr>)
             (filter (\<lambda>p. \<not> startswith (path_name p) ''_'') ps)"
  by (induction ps arbitrary: out) auto


lemma glob_py_eq:
  assumes "\<forall>n \<in> set (listdir e d). valid_entry n"
  shows "glob_py e d = map ((@) (dir_prefix d)) (filter (\<lambda>n. endswith n ''.py'') (listdir e d))"
  unfolding glob_py_def using assms by (auto simp: joinpath_prefix)

lemma children_infos:
  "\<forall>n \<in> set ns. valid_entry n \<Longrightarrow>
   map (\<lambda>p. \<lparr>name = path_stem p, origin = p\<rparr>)
     (filter (\<lambda>p. \<not> startswith (path_name p) ''_'') (map (joinpath d) ns)) =
   map (\<lambda>n. \<lparr>name = path_stem n, origin = joinpath d n\<rparr>)
     (filter (\<lambda>n. \<not> startswith n ''_'') ns)"
  by (induction ns) (auto simp: path_name_joinpath path_stem_joinpath)

lemma list_plugins_eq:
  assumes valid: "\<forall>n \<in> set (listdir e (resolve e plugin_dir)). valid_entry n"
  shows "list_plugins e plugin_dir =
     (if path_exists e (resolve e plugin_dir)
      then map (\<lambda>n. \<lparr>name = path_stem n, origin = joinpath (resolve e plugin_dir) n\<rparr>)
             (sort (filter (\<lambda>n. endswith n ''.py'' \<and> \<not> startswith n ''_'')
                      (listdir e (resolve e plugin_dir))))
      else [])"
proof -
  let ?d = "resolve e plugin_dir"
  let ?py = "filter (\<lambda>n. endswith n ''.py'') (listdir e ?d)"
  have v: "\<forall>n \<in> set (sort ?py). valid_entry n" using valid by auto
  have "list_loop (sort (glob_py e ?d)) [] =
        map (\<lambda>p. \<lparr>name = path_stem p, origin = p\<rparr>)
          (filter (\<lambda>p. \<not> startswith (path_name p) ''_'') (map (joinpath ?d) (sort ?py)))"
  proof -
    have "map (joinpath ?d) (sort ?py) = map ((@) (dir_prefix ?d)) (sort ?py)"
      using v by (intro map_cong) (auto simp: joinpath_prefix)
    then show ?thesis
      by (simp only: list_loop_eq glob_py_eq [OF valid] sort_prefix append_Nil)
  qed
  also have "\<dots> = map (\<lambda>n. \<lparr>name = path_stem n, origin = joinpath ?d n\<rparr>)
          (filter (\<lambda>n. \<not> startswith n ''_'') (sort ?py))"
    using v by (rule children_infos)
  also have "filter (\<lambda>n. \<not> startswith n ''_'') (sort ?py) =
      sort (filter (\<lambda>n. endswith n ''.py'' \<and> \<not> startswith n ''_'') (listdir e ?d))"
    by (simp add: filter_sort conj_commute)
  finally show ?thesis by (simp add: list_plugins_def Let_def)
qed

lemma origin_names:
  "\<forall>n \<in> set ns. valid_entry n \<Longrightarrow>
   map (\<lambda>i. path_name (origin i))
     (map (\<lambda>n. \<lparr>name = path_stem n, origin = joinpath d n\<rparr>) ns) = ns"
  by (induction ns) (auto simp: path_name_joinpath)

text \<open>
  Claim C7. \<open>list_plugins\<close> returns a list and never an error. When the resolved
  directory exists, the list has one entry for each directory entry whose name ends in
  \<open>.py\<close> and does not begin with \<open>_\<close>, in the order of the sorted file names
  (the entry's name is the stem, its origin the path of the file); when the directory
  does not exist or has no entries, the list is empty. The witness is a directory with
  \<open>_private.py\<close>, \<open>a.py\<close>, \<open>b.py\<close> and a file that is not a source file:
  the listing is exactly \<open>a\<close>, \<open>b\<close>.
\<close>

theorem list_plugins_sorted:
  assumes valid: "\<forall>n \<in> set (listdir e (resolve e plugin_dir)). valid_entry n"
  shows "list_plugins e plugin_dir =
     (if path_exists e (resolve e plugin_dir)
      then map (\<lambda>n. \<lparr>name = path_stem n, origin = joinpath (resolve e plugin_dir) n\<rparr>)
             (sort (filter (\<lambda>n. endswith n ''.py'' \<and> \<not> startswith n ''_'')
                      (listdir e (resolve e plugin_dir))))
      else [])
   \<and> map (\<lambda>i. path_name (origin i)) (list_plugins e plugin_dir) =
     (if path_exists e (resolve e plugin_dir)
      then sort (filter (\<lambda>n. endswith n ''.py'' \<and> \<not> startswith n ''_'')
                      (listdir e (resolve e plugin_dir)))
      else [])
   \<and> sorted (map (\<lambda>i. path_name (origin i)) (list_plugins e plugin_dir))
   \<and> (\<not> path_exists e (resolve e plugin_dir) \<or> listdir e (resolve e plugin_dir) = []
        \<longrightarrow> list_plugins e plugin_dir = [])"
proof -
  let ?d = "resolve e plugin_dir"
  let ?ns = "sort (filter (\<lambda>n. endswith n ''.py'' \<and> \<not> startswith n ''_'') (listdir e ?d))"
  note eq = list_plugins_eq [OF valid]
  have names: "map (\<lambda>i. path_name (origin i))
                 (map (\<lambda>n. \<lparr>name = path_stem n, origin = joinpath ?d n\<rparr>) ?ns) = ?ns"
    using valid by (intro origin_names) auto
  have 2: "map (\<lambda>i. path_name (origin i)) (list_plugins e plugin_dir) =
     (if path_exists e ?d then ?ns else [])"
    using names by (simp add: eq del: map_map)
  have 3: "sorted (map (\<lambda>i. path_name (origin i)) (list_plugins e plugin_dir))"
    unfolding 2 by simp
  have 4: "\<not> path_exists e ?d \<or> listdir e ?d = [] \<longrightarrow> list_plugins e plugin_dir = []"
    by (auto simp: eq)
  show ?thesis using eq 2 3 4 by blast
qed

theorem list_plugins_sorted_witness:
  "list_all valid_entry (listdir listing_env (resolve listing_env ''/plug'')) \<and>
   list_plugins listing_env ''/plug'' =
     [\<lparr>name = ''a'', origin = ''/plug/a.py''\<rparr>, \<lparr>name = ''b'', origin = ''/plug/b.py''\<rparr>]"
proof -
  have h: "\<forall>n \<in> set (listdir listing_env (resolve listing_env ''/plug'')). valid_entry n"
    by (simp add: listing_env_def base_env_def valid_entry_def)
  have "list_plugins listing_env ''/plug'' =
     [\<lparr>name = ''a'', origin = ''/plug/a.py''\<rparr>, \<lparr>name = ''b'', origin = ''/plug/b.py''\<rparr>]"
    using list_plugins_sorted [OF h]
    by (simp add: listing_env_def base_env_def endswith_def startswith_def joinpath_def
        path_stem_def path_name_def parts_def)
  moreover have "list_all valid_entry (listdir listing_env (resolve listing_env ''/plug''))"
    using h by (simp only: list_all_iff)
  ultimately show ?thesis by simp
qed

section \<open>The target grammar\<close>

lemma startswith_append [simp]: "startswith (pre @ x) pre"
  by (simp add: startswith_def)

text \<open>
  Claim C3. \<open>load_plugin\<close> does what the parsed intent says, for every target and
  base directory: a target \<open>path:P\<close> is the intent \<open>ByExplicitPath P\<close> whatever the
  base directory, a target \<open>name:N\<close> is \<open>ByRegisteredName N\<close>, and any other
  target \<open>T\<close> is \<open>ByConventionDir\<close> of the (resolved) base directory and \<open>T\<close>,
  which loads the file \<open>baseDir / (T + ".py")\<close>. Parsing is total; the error of a
  convention-directory target whose file does not exist is the \<open>FileNotFoundError\<close>
  of the load.
\<close>

theorem load_plugin_parses_target:
  "load_plugin e s tgt plugin_dir = spec_load e s (spec_parse tgt (resolve e plugin_dir))
   \<and> spec_parse (''path:'' @ p) baseDir = ByExplicitPath p
   \<and> spec_parse (''name:'' @ n) baseDir = ByRegisteredName n
   \<and> (\<not> startswith tgt ''path:'' \<and> \<not> startswith tgt ''name:'' \<longrightarrow>
        spec_parse tgt baseDir = ByConventionDir baseDir tgt)
   \<and> (\<not> path_exists e (resolve e (joinpath baseDir (t @ ''.py''))) \<longrightarrow>
        spec_load e s (ByConventionDir baseDir t) = (Inl FileNotFoundError, s))"
proof -
  have 1: "load_plugin e s tgt plugin_dir = spec_load e s (spec_parse tgt (resolve e plugin_dir))"
    by (simp add: load_plugin_def spec_parse_def with_label_def Let_def
        split: prod.splits sum.splits)
  have 2: "spec_parse (''path:'' @ p) baseDir = ByExplicitPath p"
    by (simp add: spec_parse_def startswith_def)
  have 3: "spec_parse (''name:'' @ n) baseDir = ByRegisteredName n"
    by (simp add: spec_parse_def startswith_def)
  have 4: "\<not> startswith tgt ''path:'' \<and> \<not> startswith tgt ''name:'' \<longrightarrow>
        spec_parse tgt baseDir = ByConventionDir baseDir tgt"
    by (simp add: spec_parse_def)
  have 5: "\<not> path_exists e (resolve e (joinpath baseDir (t @ ''.py''))) \<longrightarrow>
        spec_load e s (ByConventionDir baseDir t) = (Inl FileNotFoundError, s)"
    by (simp add: import_from_file_def with_label_def)
  show ?thesis using 1 2 3 4 5 by blast
qed

theorem load_plugin_parses_target_witness:
  "\<not> startswith ''hello'' ''path:'' \<and> \<not> startswith ''hello'' ''name:'' \<and>
   spec_parse ''hello'' ''./plugins'' = ByConventionDir ''./plugins'' ''hello'' \<and>
   spec_parse ''path:/a/b.py'' ''./plugins'' = ByExplicitPath ''/a/b.py'' \<and>
   spec_parse ''name:json'' ''./plugins'' = ByRegisteredName ''json'' \<and>
   \<not> path_exists base_env (resolve base_env (joinpath ''./plugins'' (''hello'' @ ''.py''))) \<and>
   load_plugin base_env init_state ''hello'' ''./plugins'' = (Inl FileNotFoundError, init_state)"
  using load_plugin_parses_target [of base_env init_state "''hello''" "''./plugins''"
      "''/a/b.py''" "''./plugins''" "''json''" "''hello''"]
  by (simp add: startswith_def base_env_def)

section \<open>Logical names\<close>

lemma rfind_dot_append:
  "rfind_dot (a @ b) =
     (case rfind_dot b of Some i \<Rightarrow> Some (length a + i) | None \<Rightarrow> rfind_dot a)"
  by (induction a) (auto split: option.splits)

lemma path_stem_py:
  assumes "valid_entry t"
  shows "path_stem (joinpath d (t @ ''.py'')) = t"
proof -
  have v: "valid_entry (t @ ''.py'')"
    using assms by (cases t) (auto simp: valid_entry_def)
  have r: "rfind_dot (t @ ''.py'') = Some (length t)"
    by (simp add: rfind_dot_append)
  have "t \<noteq> []" using assms by (simp add: valid_entry_def)
  then show ?thesis
    by (simp add: path_stem_def path_name_joinpath [OF v] r Let_def)
qed

lemma load_plugin_key:
  "\<exists>l f. load_plugin e s tgt plugin_dir =
     with_label l
       (if startswith tgt ''path:'' \<or> \<not> startswith tgt ''name:''
        then import_from_file e s (plugin_mod_name tgt) f
        else import_by_name e s (plugin_mod_name tgt))"
proof (cases "startswith tgt ''path:''")
  case True
  then show ?thesis
    by (auto simp: load_plugin_def plugin_mod_name_def with_label_def Let_def)
next
  case False
  then show ?thesis
    by (cases "startswith tgt ''name:''")
      (auto simp: load_plugin_def plugin_mod_name_def with_label_def Let_def)
qed

text \<open>
  Claim C4, as amended. An explicit path is imported under \<open>__plugin__\<close> plus the stem
  of the path, a convention-directory target under \<open>__plugin__\<close> plus the target
  itself (the stem of \<open>baseDir/T.py\<close> when \<open>T\<close> is a plain file name), and a
  registered name under the name itself; the name is the key that \<open>load_plugin\<close>
  hands to the import. A registered name that does not begin with \<open>__plugin__\<close>
  never has the key of a file-based target. Nothing more: targets of different intents
  can share a key, as \<open>logical_names_collide\<close> below shows.
\<close>

theorem plugin_mod_name_cases:
  "(startswith tgt ''path:'' \<longrightarrow>
      plugin_mod_name tgt = ''__plugin__'' @ path_stem (drop (length ''path:'') tgt))
   \<and> (\<not> startswith tgt ''path:'' \<and> startswith tgt ''name:'' \<longrightarrow>
      plugin_mod_name tgt = drop (length ''name:'') tgt)
   \<and> (\<not> startswith tgt ''path:'' \<and> \<not> startswith tgt ''name:'' \<longrightarrow>
      plugin_mod_name tgt = ''__plugin__'' @ tgt)
   \<and> (valid_entry t \<longrightarrow> path_stem (joinpath d (t @ ''.py'')) = t)
   \<and> (\<not> startswith n ''__plugin__'' \<and> \<not> startswith t' ''name:'' \<longrightarrow>
      plugin_mod_name (''name:'' @ n) \<noteq> plugin_mod_name t')
   \<and> (\<exists>l f. load_plugin e s tgt plugin_dir =
         with_label l
           (if startswith tgt ''path:'' \<or> \<not> startswith tgt ''name:''
            then import_from_file e s (plugin_mod_name tgt) f
            else import_by_name e s (plugin_mod_name tgt)))"
proof -
  have 5: "\<not> startswith n ''__plugin__'' \<and> \<not> startswith t' ''name:'' \<longrightarrow>
      plugin_mod_name (''name:'' @ n) \<noteq> plugin_mod_name t'"
    by (auto simp: plugin_mod_name_def startswith_def)
  show ?thesis
    using 5 load_plugin_key [of e s tgt plugin_dir] path_stem_py [of t d]
    by (simp add: plugin_mod_name_def)
qed

theorem plugin_mod_name_cases_witness:
  "startswith ''path:/other/hello.py'' ''path:'' \<and>
   plugin_mod_name ''path:/other/hello.py'' = ''__plugin__hello'' \<and>
   \<not> startswith ''name:json'' ''path:'' \<and> startswith ''name:json'' ''name:'' \<and>
   plugin_mod_name ''name:json'' = ''json'' \<and>
   \<not> startswith ''hello'' ''path:'' \<and> \<not> startswith ''hello'' ''name:'' \<and>
   plugin_mod_name ''hello'' = ''__plugin__hello'' \<and>
   valid_entry ''hello'' \<and> path_stem (joinpath ''./plugins'' (''hello'' @ ''.py'')) = ''hello'' \<and>
   \<not> startswith ''json'' ''__plugin__'' \<and>
   plugin_mod_name (''name:'' @ ''json'') \<noteq> plugin_mod_name ''hello''"
proof -
  have h: "valid_entry ''hello''" by (simp add: valid_entry_def)
  have p: "path_stem ''/other/hello.py'' = ''hello''"
    by (simp add: path_stem_def path_name_def parts_def)
  show ?thesis
    using h p plugin_mod_name_cases [of "''path:/other/hello.py''" "''hello''" "''./plugins''"
        "''json''" "''hello''"]
      plugin_mod_name_cases [of "''name:json''"] plugin_mod_name_cases [of "''hello''"]
    by (simp add: startswith_def)
qed

text \<open>
  The targets \<open>hello\<close>, \<open>path:/other/hello.py\<close> and \<open>name:__plugin__hello\<close> are
  three different intents with one key, \<open>__plugin__hello\<close>; loading the second after
  the first replaces the module cached under that key.
\<close>

theorem logical_names_collide:
  "''hello'' \<noteq> ''path:/other/hello.py'' \<and>
   spec_parse ''hello'' ''./plugins'' = ByConventionDir ''./plugins'' ''hello'' \<and>
   spec_parse ''path:/other/hello.py'' ''./plugins'' = ByExplicitPath ''/other/hello.py'' \<and>
   spec_parse ''name:__plugin__hello'' ''./plugins'' = ByRegisteredName ''__plugin__hello'' \<and>
   plugin_mod_name ''hello'' = ''__plugin__hello'' \<and>
   plugin_mod_name ''path:/other/hello.py'' = ''__plugin__hello'' \<and>
   plugin_mod_name ''name:__plugin__hello'' = ''__plugin__hello'' \<and>
   sys_modules (snd (load_plugin two_dirs_env init_state ''hello'' ''./plugins''))
     ''__plugin__hello'' = Some 0 \<and>
   sys_modules (snd (load_plugin two_dirs_env
        (snd (load_plugin two_dirs_env init_state ''hello'' ''./plugins''))
        ''path:/other/hello.py'' ''./plugins'')) ''__plugin__hello'' = Some 1"
  by (simp add: plugin_mod_name_def spec_parse_def startswith_def endswith_def
      path_stem_def path_name_def parts_def load_plugin_def joinpath_def import_from_file_def
      two_dirs_env_def base_env_def spec_from_file_location_def module_from_spec_def
      no_effect_def init_state_def Let_def)

section \<open>Eager insertion into the cache\<close>

lemma import_from_file_missing:
  "\<not> path_exists e (resolve e p) \<Longrightarrow> import_from_file e s n p = (Inl FileNotFoundError, s)"
  by (simp add: import_from_file_def)

lemma import_from_file_run:
  assumes "path_exists e (resolve e p)" and "supported_file e (resolve e p)"
  shows "\<exists>s2. sys_modules s2 n = Some (next_id s)
           \<and> attrs (objs s2 (next_id s)) = Map.empty
           \<and> mod_name (objs s2 (next_id s)) = n
           \<and> (\<forall>k. k \<noteq> n \<longrightarrow> sys_modules s2 k = sys_modules s k)
           \<and> import_from_file e s n p =
               (case exec_file e (resolve e p) s2 (next_id s) of
                  (None, s3) \<Rightarrow> (Inr (next_id s), s3)
                | (Some ex, s3) \<Rightarrow> (Inl ex, s3))"
proof -
  let ?sp = "\<lparr>spec_name = n, spec_loader = FileLoader (resolve e p),
              spec_origin = Some (resolve e p), has_location = True\<rparr>"
  let ?s1 = "snd (module_from_spec ?sp s)"
  let ?s2 = "?s1\<lparr>sys_modules := (sys_modules ?s1)(n \<mapsto> next_id s)\<rparr>"
  have "import_from_file e s n p =
               (case exec_file e (resolve e p) ?s2 (next_id s) of
                  (None, s3) \<Rightarrow> (Inr (next_id s), s3)
                | (Some ex, s3) \<Rightarrow> (Inl ex, s3))"
    using assms
    by (simp add: import_from_file_def spec_from_file_location_def module_from_spec_def Let_def
        split: prod.splits option.splits)
  moreover have "sys_modules ?s2 n = Some (next_id s)" by simp
  moreover have "attrs (objs ?s2 (next_id s)) = Map.empty"
    by (simp add: module_from_spec_def Let_def)
  moreover have "mod_name (objs ?s2 (next_id s)) = n"
    by (simp add: module_from_spec_def Let_def)
  moreover have "\<forall>k. k \<noteq> n \<longrightarrow> sys_modules ?s2 k = sys_modules s k"
    by (simp add: module_from_spec_def Let_def)
  ultimately show ?thesis by blast
qed



text \<open>
  Claim C5. When the file does not exist, \<open>import_from_file\<close> raises
  \<open>FileNotFoundError\<close> and the state, the cache included, is untouched. When it
  exists and has a loader, the content is executed in a state in which the new module,
  still empty, is already cached under the logical name (and no other cache entry has
  changed); the result is the content's own: on an exception the state is the one the
  content left, nothing is rolled back, so the module stays cached with whatever it had
  bound. The witness is a plugin that finds itself in the cache, binds an attribute and
  raises: afterwards the module is cached and has the attribute.
\<close>

theorem import_from_file_eager:
  "(\<not> path_exists e (resolve e p) \<longrightarrow>
      import_from_file e s n p = (Inl FileNotFoundError, s))
   \<and> (path_exists e (resolve e p) \<and> supported_file e (resolve e p) \<longrightarrow>
      (\<exists>s2. sys_modules s2 n = Some (next_id s)
           \<and> attrs (objs s2 (next_id s)) = Map.empty
           \<and> mod_name (objs s2 (next_id s)) = n
           \<and> (\<forall>k. k \<noteq> n \<longrightarrow> sys_modules s2 k = sys_modules s k)
           \<and> import_from_file e s n p =
               (case exec_file e (resolve e p) s2 (next_id s) of
                  (None, s3) \<Rightarrow> (Inr (next_id s), s3)
                | (Some ex, s3) \<Rightarrow> (Inl ex, s3))))"
proof (intro conjI impI)
  assume "\<not> path_exists e (resolve e p)"
  then show "import_from_file e s n p = (Inl FileNotFoundError, s)"
    by (rule import_from_file_missing)
next
  assume "path_exists e (resolve e p) \<and> supported_file e (resolve e p)"
  then show "\<exists>s2. sys_modules s2 n = Some (next_id s)
           \<and> attrs (objs s2 (next_id s)) = Map.empty
           \<and> mod_name (objs s2 (next_id s)) = n
           \<and> (\<forall>k. k \<noteq> n \<longrightarrow> sys_modules s2 k = sys_modules s k)
           \<and> import_from_file e s n p =
               (case exec_file e (resolve e p) s2 (next_id s) of
                  (None, s3) \<Rightarrow> (Inr (next_id s), s3)
                | (Some ex, s3) \<Rightarrow> (Inl ex, s3))"
    using import_from_file_run [of e p n s] by simp
qed

lemma bad_load:
  "import_from_file self_check_env init_state ''__plugin__bad'' ''/p/bad.py''
     = (Inl (UserError ''RuntimeError''), bad_loaded)"
  unfolding bad_loaded_def
  by (simp add: import_from_file_def self_check_env_def base_env_def endswith_def
      spec_from_file_location_def module_from_spec_def self_check_def init_state_def Let_def)

lemma bad_loaded_cache:
  "sys_modules bad_loaded ''__plugin__bad'' = Some 0 \<and>
   attrs (objs bad_loaded 0) ''SEEN'' = Some (IntV 1)"
  unfolding bad_loaded_def
  by (simp add: import_from_file_def self_check_env_def base_env_def endswith_def
      spec_from_file_location_def module_from_spec_def self_check_def init_state_def Let_def
      setattr_def)


theorem import_from_file_eager_witness:
  "path_exists self_check_env (resolve self_check_env ''/p/bad.py'') \<and>
   supported_file self_check_env (resolve self_check_env ''/p/bad.py'') \<and>
   (\<exists>s2. sys_modules s2 ''__plugin__bad'' = Some 0 \<and> attrs (objs s2 0) = Map.empty \<and>
      (Inl (UserError ''RuntimeError''), bad_loaded) =
        (case self_check s2 0 of
           (None, s3) \<Rightarrow> (Inr (0::mod_id), s3) | (Some ex, s3) \<Rightarrow> (Inl ex, s3))) \<and>
   sys_modules bad_loaded ''__plugin__bad'' = Some 0 \<and>
   attrs (objs bad_loaded 0) ''SEEN'' = Some (IntV 1) \<and>
   \<not> path_exists self_check_env (resolve self_check_env ''/p/none.py'') \<and>
   import_from_file self_check_env init_state ''__plugin__none'' ''/p/none.py''
     = (Inl FileNotFoundError, init_state)"
proof -
  have h1: "path_exists self_check_env (resolve self_check_env ''/p/bad.py'')"
    by (simp add: self_check_env_def base_env_def)
  have h2: "supported_file self_check_env (resolve self_check_env ''/p/bad.py'')"
    by (simp add: self_check_env_def base_env_def endswith_def)
  have h3: "\<not> path_exists self_check_env (resolve self_check_env ''/p/none.py'')"
    by (simp add: self_check_env_def base_env_def)
  have r: "resolve self_check_env ''/p/bad.py'' = ''/p/bad.py''"
    "exec_file self_check_env ''/p/bad.py'' = self_check" "next_id init_state = 0"
    by (simp_all add: self_check_env_def base_env_def init_state_def)
  note t = import_from_file_eager [of self_check_env "''/p/bad.py''" init_state "''__plugin__bad''"]
  from t [THEN conjunct2, THEN mp, OF conjI [OF h1 h2]]
  obtain s2 where s2: "sys_modules s2 ''__plugin__bad'' = Some (next_id init_state)"
      "attrs (objs s2 (next_id init_state)) = Map.empty"
      "import_from_file self_check_env init_state ''__plugin__bad'' ''/p/bad.py'' =
         (case exec_file self_check_env (resolve self_check_env ''/p/bad.py'') s2
                 (next_id init_state) of
            (None, s3) \<Rightarrow> (Inr (next_id init_state), s3)
          | (Some ex, s3) \<Rightarrow> (Inl ex, s3))"
    by auto
  have a: "\<exists>s2. sys_modules s2 ''__plugin__bad'' = Some 0 \<and> attrs (objs s2 0) = Map.empty \<and>
      (Inl (UserError ''RuntimeError''), bad_loaded) =
        (case self_check s2 0 of
           (None, s3) \<Rightarrow> (Inr (0::mod_id), s3) | (Some ex, s3) \<Rightarrow> (Inl ex, s3))"
    using s2 unfolding r bad_load by (intro exI [of _ s2] conjI) assumption+
  have b: "import_from_file self_check_env init_state ''__plugin__none'' ''/p/none.py''
     = (Inl FileNotFoundError, init_state)"
    using import_from_file_eager [of self_check_env "''/p/none.py''" init_state
        "''__plugin__none''", THEN conjunct1] h3 by (rule mp)
  show ?thesis
    using h1 h2 h3 a b bad_loaded_cache by (intro conjI) simp_all
qed

section \<open>Loading twice\<close>






























section \<open>The calling convention\<close>

text \<open>
  Claim C2, as amended. For a module with an entry point, \<open>call_plugin\<close> first
  evaluates \<open>int(main(argv))\<close>. An integer is the result. An exception other than
  \<open>TypeError\<close> propagates. A \<open>TypeError\<close> of that first attempt, whatever raised
  it, makes \<open>call_plugin\<close> evaluate \<open>int(main())\<close> instead, and the outcome of
  that, exceptions included, is the result. An argument-count mismatch is one source of
  the \<open>TypeError\<close>; the body and the coercion \<open>int\<close> are others.
\<close>

theorem call_plugin_fallback:
  assumes "attrs (objs s module) ''main'' = Some fn"
  shows "(call_int e s fn [argv] = (Inr n, s1) \<longrightarrow> call_plugin e s module argv = (Inr n, s1))
   \<and> (call_int e s fn [argv] = (Inl ex, s1) \<and> ex \<noteq> TypeError \<longrightarrow>
        call_plugin e s module argv = (Inl ex, s1))
   \<and> (call_int e s fn [argv] = (Inl TypeError, s1) \<longrightarrow>
        call_plugin e s module argv = call_int e s1 fn [])
   \<and> (fn = FunV r \<and> \<not> accepts (callable_of e r) 1 \<longrightarrow>
        call_int e s fn [argv] = (Inl TypeError, s))
   \<and> (call e s fn args = (Inr v, s1) \<longrightarrow> call_int e s fn args = (py_int e v, s1))
   \<and> (call e s fn args = (Inl ex, s1) \<longrightarrow> call_int e s fn args = (Inl ex, s1))"
  using assms by (simp add: call_plugin_def call_int_def call_def)

lemmas calls_eval = call_plugin_def call_int_def call_def callable_of_def py_int_def
  calls_env_def base_env_def main_state_def setattr_def init_state_def
  picky_def returns_none_def zero_arg_def raises_value_error_def count_args_def

lemma main_state_main: "attrs (objs (main_state k) 0) ''main'' = Some (FunV (UserFun k))"
  by (simp add: main_state_def setattr_def)

theorem call_plugin_fallback_witness:
  "attrs (objs (main_state 3) 0) ''main'' = Some (FunV (UserFun 3)) \<and>
   call_int calls_env (main_state 3) (FunV (UserFun 3)) [[''x'', ''y'']] = (Inr 2, main_state 3) \<and>
   call_plugin calls_env (main_state 3) 0 [''x'', ''y''] = (Inr 2, main_state 3) \<and>
   call_int calls_env (main_state 4) (FunV (UserFun 4)) [[''x'', ''y'']]
     = (Inl ValueError, main_state 4) \<and> ValueError \<noteq> TypeError \<and>
   call_plugin calls_env (main_state 4) 0 [''x'', ''y''] = (Inl ValueError, main_state 4) \<and>
   \<not> accepts (callable_of calls_env (UserFun 2)) 1 \<and>
   call_int calls_env (main_state 2) (FunV (UserFun 2)) [[''x'', ''y'']]
     = (Inl TypeError, main_state 2) \<and>
   call_plugin calls_env (main_state 2) 0 [''x'', ''y''] = (Inr 3, main_state 2)"
proof -
  have a3: "call_int calls_env (main_state 3) (FunV (UserFun 3)) [[''x'', ''y'']]
       = (Inr 2, main_state 3)"
    by (simp add: call_int_def call_def callable_of_def py_int_def calls_env_def base_env_def
        count_args_def)
  have a4: "call_int calls_env (main_state 4) (FunV (UserFun 4)) [[''x'', ''y'']]
       = (Inl ValueError, main_state 4)"
    by (simp add: call_int_def call_def callable_of_def py_int_def calls_env_def base_env_def
        raises_value_error_def)
  have n2: "\<not> accepts (callable_of calls_env (UserFun 2)) 1"
    by (simp add: callable_of_def calls_env_def base_env_def zero_arg_def)
  have z2: "call_int calls_env (main_state 2) (FunV (UserFun 2)) [] = (Inr 3, main_state 2)"
    by (simp add: call_int_def call_def callable_of_def py_int_def calls_env_def base_env_def
        zero_arg_def)
  note t3 = call_plugin_fallback [OF main_state_main [of 3], of calls_env "[''x'', ''y'']" 2
      "main_state 3"]
  note t4 = call_plugin_fallback [OF main_state_main [of 4], of calls_env "[''x'', ''y'']" _ 
      "main_state 4" ValueError]
  note t2 = call_plugin_fallback [OF main_state_main [of 2], of calls_env "[''x'', ''y'']" _
      "main_state 2" _ "UserFun 2"]
  have b3: "call_plugin calls_env (main_state 3) 0 [''x'', ''y''] = (Inr 2, main_state 3)"
    using t3 a3 by blast
  have b4: "call_plugin calls_env (main_state 4) 0 [''x'', ''y''] = (Inl ValueError, main_state 4)"
    using t4 a4 by blast
  have c2: "call_int calls_env (main_state 2) (FunV (UserFun 2)) [[''x'', ''y'']]
       = (Inl TypeError, main_state 2)"
    using t2 n2 by blast
  have b2: "call_plugin calls_env (main_state 2) 0 [''x'', ''y''] = (Inr 3, main_state 2)"
    using t2 c2 z2 by simp
  show ?thesis using main_state_main [of 3] a3 b3 a4 b4 n2 c2 b2 by (intro conjI) simp_all
qed

text \<open>
  \<open>picky\<close> accepts one argument and raises \<open>TypeError\<close> in its body: the error
  does not propagate, the zero-argument call is made and 7 is returned. \<open>returns_none\<close>
  runs with the arguments and returns \<open>None\<close>: the failed coercion does not propagate
  either, the function is called a second time without arguments.
\<close>

theorem fallback_on_any_TypeError:
  "accepts (callable_of calls_env (UserFun 0)) 1 \<and>
   call calls_env (main_state 0) (FunV (UserFun 0)) [[''x'', ''y'']]
     = (Inl TypeError, main_state 0) \<and>
   call_plugin calls_env (main_state 0) 0 [''x'', ''y''] = (Inr 7, main_state 0) \<and>
   accepts (callable_of calls_env (UserFun 1)) 1 \<and>
   call calls_env (main_state 1) (FunV (UserFun 1)) [[''x'', ''y'']]
     = (Inr NoneV, print_line (main_state 1) ''ran'') \<and>
   py_int calls_env NoneV = Inl TypeError \<and>
   call_plugin calls_env (main_state 1) 0 [''x'', ''y'']
     = (Inr 0, print_line (main_state 1) ''ran'')"
  by (simp add: calls_eval print_line_def)

section \<open>A failing reload\<close>

text \<open>
  Claim C6, as amended. In a run with \<open>--reload\<close> whose reload raises an exception
  \<open>ex\<close>: when \<open>ex\<close> is an \<open>Exception\<close>, \<open>main\<close> prints the warning and goes on
  to call the plugin with the module and the label that \<open>load_plugin\<close> returned; when
  it is not (\<open>SystemExit\<close>, \<open>KeyboardInterrupt\<close>), it leaves \<open>main\<close> and the plugin
  is not called. The witness is the plugin \<open>hello\<close>: its synthetic name is unknown to
  the finders, so the reload raises \<open>ModuleNotFoundError\<close>, the warning is printed and
  the plugin runs.
\<close>

theorem reload_failure_nonfatal:
  assumes "load_plugin e s (target args) plugin_dir = (Inr (m, l), s1)"
    and "reload_flag args"
    and "reload e s1 m = (Inl ex, s2)"
  shows "(is_Exception ex \<longrightarrow>
      main_run e s plugin_dir args =
        call_plugin e
          (run_banner
             (print_line s2 (''[reload] failed, continuing without reload: '' @ repr_exn ex)) m l)
          m (filter (\<lambda>a. a \<noteq> ''--'') (plugin_args args)))
   \<and> (\<not> is_Exception ex \<longrightarrow> main_run e s plugin_dir args = (Inl ex, s2))"
  using assms by (simp add: main_run_def reload_step_def)

lemma hello_reload:
  "reload hello_env hello_loaded 0 = (Inl ModuleNotFoundError, hello_reload_failed)"
  unfolding hello_reload_failed_def hello_loaded_def
  by (simp add: reload_def load_plugin_def startswith_def endswith_def joinpath_def
      import_from_file_def hello_env_def base_env_def spec_from_file_location_def
      module_from_spec_def hello_content_def setattr_def init_state_def Let_def)

lemma hello_reload_failed_main:
  "attrs (objs hello_reload_failed 0) ''main'' = Some (FunV (UserFun 0)) \<and>
   stdout hello_reload_failed = []"
  unfolding hello_reload_failed_def hello_loaded_def
  by (simp add: reload_def load_plugin_def startswith_def endswith_def joinpath_def
      import_from_file_def hello_env_def base_env_def spec_from_file_location_def
      module_from_spec_def hello_content_def setattr_def init_state_def Let_def)

lemma once_load:
  "load_plugin exit_env init_state ''name:once'' ''./plugins''
     = (Inr (0, ''name:once''), once_loaded)"
  unfolding once_loaded_def
  by (simp add: load_plugin_def startswith_def import_by_name_def import_module_def
      load_unlocked_def exit_env_def calls_env_def base_env_def module_from_spec_def
      exit_on_second_def setattr_def init_state_def Let_def)

lemma once_reload:
  "reload exit_env once_loaded 0 = (Inl SystemExit, once_loaded)"
  unfolding once_loaded_def
  by (simp add: reload_def load_plugin_def startswith_def import_by_name_def import_module_def
      load_unlocked_def exit_env_def calls_env_def base_env_def module_from_spec_def
      exit_on_second_def setattr_def init_state_def Let_def)


theorem reload_failure_nonfatal_witness:
  "load_plugin hello_env init_state (target hello_reload_args) ''./plugins''
     = (Inr (0, ''plugin:./plugins/hello.py''), hello_loaded) \<and>
   reload_flag hello_reload_args \<and>
   reload hello_env hello_loaded 0 = (Inl ModuleNotFoundError, hello_reload_failed) \<and>
   is_Exception ModuleNotFoundError \<and>
   main_run hello_env init_state ''./plugins'' hello_reload_args =
     call_plugin hello_env
       (run_banner
          (print_line hello_reload_failed
             ''[reload] failed, continuing without reload: ModuleNotFoundError()'')
          0 ''plugin:./plugins/hello.py'')
       0 [''a''] \<and>
   fst (main_run hello_env init_state ''./plugins'' hello_reload_args) = Inr 1 \<and>
   hd (stdout (snd (main_run hello_env init_state ''./plugins'' hello_reload_args)))
     = ''[reload] failed, continuing without reload: ModuleNotFoundError()'' \<and>
   load_plugin exit_env init_state (target (once_args True)) ''./plugins''
     = (Inr (0, ''name:once''), once_loaded) \<and>
   reload_flag (once_args True) \<and>
   reload exit_env once_loaded 0 = (Inl SystemExit, once_loaded) \<and>
   \<not> is_Exception SystemExit \<and>
   main_run exit_env init_state ''./plugins'' (once_args True) = (Inl SystemExit, once_loaded)"
proof -
  have g1: "load_plugin exit_env init_state (target (once_args True)) ''./plugins''
     = (Inr (0, ''name:once''), once_loaded)"
    using once_load by (simp add: once_args_def)
  have g2: "reload_flag (once_args True)" by (simp add: once_args_def)
  have g: "main_run exit_env init_state ''./plugins'' (once_args True)
     = (Inl SystemExit, once_loaded)"
    using reload_failure_nonfatal [OF g1 g2 once_reload] by simp
  have h1: "load_plugin hello_env init_state (target hello_reload_args) ''./plugins''
     = (Inr (0, ''plugin:./plugins/hello.py''), hello_loaded)"
    using hello_load by (simp add: hello_reload_args_def)
  have h2: "reload_flag hello_reload_args" by (simp add: hello_reload_args_def)
  have h4: "is_Exception ModuleNotFoundError" by simp
  have m: "main_run hello_env init_state ''./plugins'' hello_reload_args =
     call_plugin hello_env
       (run_banner
          (print_line hello_reload_failed
             ''[reload] failed, continuing without reload: ModuleNotFoundError()'')
          0 ''plugin:./plugins/hello.py'')
       0 [''a'']"
    using reload_failure_nonfatal [OF h1 h2 hello_reload] h4
    by (simp add: hello_reload_args_def)
  have r: "call_plugin hello_env
       (run_banner
          (print_line hello_reload_failed
             ''[reload] failed, continuing without reload: ModuleNotFoundError()'')
          0 ''plugin:./plugins/hello.py'')
       0 [''a''] = (Inr 1, run_banner
          (print_line hello_reload_failed
             ''[reload] failed, continuing without reload: ModuleNotFoundError()'')
          0 ''plugin:./plugins/hello.py'')"
    using hello_reload_failed_main
    by (simp add: call_plugin_def call_int_def call_def callable_of_def py_int_def
        run_banner_def print_line_def hello_env_def base_env_def count_args_def Let_def)
  have o: "hd (stdout (run_banner
          (print_line hello_reload_failed
             ''[reload] failed, continuing without reload: ModuleNotFoundError()'')
          0 ''plugin:./plugins/hello.py''))
     = ''[reload] failed, continuing without reload: ModuleNotFoundError()''"
    using hello_reload_failed_main by (simp add: run_banner_def print_line_def Let_def)
  show ?thesis
    using h1 h2 hello_reload h4 m r o g1 g2 once_reload g by (intro conjI) simp_all
qed

text \<open>
  The module \<open>once\<close> is loaded, its reload raises \<open>SystemExit\<close>, and the run ends
  with that exception: no warning is printed and the plugin, which returns 3 in a run
  without \<open>--reload\<close>, is never called.
\<close>

lemma once_loaded_facts:
  "stdout once_loaded = [] \<and> attrs (objs once_loaded 0) ''main'' = Some (FunV (UserFun 2))"
  unfolding once_loaded_def
  by (simp add: load_plugin_def startswith_def import_by_name_def import_module_def
      load_unlocked_def exit_env_def calls_env_def base_env_def module_from_spec_def
      exit_on_second_def setattr_def init_state_def Let_def)

theorem reload_SystemExit_aborts:
  "load_plugin exit_env init_state (target (once_args True)) ''./plugins''
     = (Inr (0, ''name:once''), once_loaded) \<and>
   reload exit_env once_loaded 0 = (Inl SystemExit, once_loaded) \<and>
   main_run exit_env init_state ''./plugins'' (once_args True) = (Inl SystemExit, once_loaded) \<and>
   stdout once_loaded = [] \<and>
   fst (main_run exit_env init_state ''./plugins'' (once_args False)) = Inr 3"
proof -
  have l: "load_plugin exit_env init_state (target (once_args r)) ''./plugins''
     = (Inr (0, ''name:once''), once_loaded)" for r
    using once_load by (simp add: once_args_def)
  have a: "main_run exit_env init_state ''./plugins'' (once_args True)
      = (Inl SystemExit, once_loaded)"
    using l [of True] once_reload by (simp add: main_run_def reload_step_def once_args_def)
  have b: "fst (main_run exit_env init_state ''./plugins'' (once_args False)) = Inr 3"
    using l [of False] once_loaded_facts
    by (simp add: main_run_def reload_step_def once_args_def run_banner_def print_line_def
        call_plugin_def call_int_def call_def callable_of_def py_int_def exit_env_def
        calls_env_def base_env_def zero_arg_def Let_def)
  show ?thesis using l [of True] once_reload a b once_loaded_facts by (intro conjI) simp_all
qed

section \<open>The demo finder\<close>

lemma demo_import:
  assumes "sys_modules s ''demo_hook'' = None"
  shows "\<exists>s'. import_module e (install_DemoFinder s) ''demo_hook'' = (Inr (next_id s), s')
           \<and> attrs (objs s' (next_id s)) ''VALUE'' = Some (IntV 123)
           \<and> \<not> hasattr (objs s' (next_id s)) ''main''
           \<and> sys_modules s' ''demo_hook'' = Some (next_id s)
           \<and> call_plugin e s' (next_id s) argv = (Inl AttributeError, s')"
proof -
  let ?s' = "snd (import_module e (install_DemoFinder s) ''demo_hook'')"
  have 1: "import_module e (install_DemoFinder s) ''demo_hook'' = (Inr (next_id s), ?s')"
    using assms
    by (simp add: import_module_def install_DemoFinder_def startswith_def
        DemoFinder_find_spec_def spec_from_loader_def load_unlocked_def module_from_spec_def
        DemoFinder_exec_module_def setattr_def Let_def)
  have 2: "attrs (objs ?s' (next_id s)) ''VALUE'' = Some (IntV 123)"
    using assms
    by (simp add: import_module_def install_DemoFinder_def startswith_def
        DemoFinder_find_spec_def spec_from_loader_def load_unlocked_def module_from_spec_def
        DemoFinder_exec_module_def setattr_def Let_def)
  have 3: "attrs (objs ?s' (next_id s)) ''main'' = None"
    using assms
    by (simp add: import_module_def install_DemoFinder_def startswith_def
        DemoFinder_find_spec_def spec_from_loader_def load_unlocked_def module_from_spec_def
        DemoFinder_exec_module_def setattr_def Let_def)
  have 4: "sys_modules ?s' ''demo_hook'' = Some (next_id s)"
    using assms
    by (simp add: import_module_def install_DemoFinder_def startswith_def
        DemoFinder_find_spec_def spec_from_loader_def load_unlocked_def module_from_spec_def
        DemoFinder_exec_module_def setattr_def Let_def)
  have 5: "call_plugin e ?s' (next_id s) argv = (Inl AttributeError, ?s')"
    using 3 by (simp add: call_plugin_def)
  show ?thesis using 1 2 3 4 5 by (intro exI [of _ ?s']) (simp add: hasattr_def)
qed

text \<open>
  Claim C9. \<open>DemoFinder\<close> answers for the name \<open>demo_hook\<close> and for no other.
  Installed at the front of \<open>sys.meta_path\<close>, it leaves the search for any other name
  to the finders behind it, and it answers for \<open>demo_hook\<close> before them. Importing
  \<open>demo_hook\<close>, when it is not cached yet, gives a new module that is cached,
  has \<open>VALUE = 123\<close> and has no \<open>main\<close>, so that \<open>call_plugin\<close> on it raises
  \<open>AttributeError\<close> and changes nothing.
\<close>

theorem demo_finder_end_to_end:
  "(DemoFinder_find_spec n \<noteq> None) = (n = ''demo_hook'')
   \<and> (n \<noteq> ''demo_hook'' \<longrightarrow>
        find_spec_chain e (meta_path (install_DemoFinder s)) n
          = find_spec_chain e (meta_path s) n)
   \<and> find_spec_chain e (meta_path (install_DemoFinder s)) ''demo_hook''
        = Some (spec_from_loader ''demo_hook'' DemoFinderLoader)
   \<and> (sys_modules s ''demo_hook'' = None \<longrightarrow>
        (\<exists>s'. import_module e (install_DemoFinder s) ''demo_hook'' = (Inr (next_id s), s')
           \<and> attrs (objs s' (next_id s)) ''VALUE'' = Some (IntV 123)
           \<and> \<not> hasattr (objs s' (next_id s)) ''main''
           \<and> sys_modules s' ''demo_hook'' = Some (next_id s)
           \<and> call_plugin e s' (next_id s) argv = (Inl AttributeError, s')))"
proof (intro conjI impI)
  show "(DemoFinder_find_spec n \<noteq> None) = (n = ''demo_hook'')"
    by (simp add: DemoFinder_find_spec_def)
  show "find_spec_chain e (meta_path (install_DemoFinder s)) ''demo_hook''
        = Some (spec_from_loader ''demo_hook'' DemoFinderLoader)"
    by (simp add: install_DemoFinder_def DemoFinder_find_spec_def)
next
  assume "n \<noteq> ''demo_hook''"
  then show "find_spec_chain e (meta_path (install_DemoFinder s)) n
          = find_spec_chain e (meta_path s) n"
    by (simp add: install_DemoFinder_def DemoFinder_find_spec_def)
next
  assume "sys_modules s ''demo_hook'' = None"
  then show "\<exists>s'. import_module e (install_DemoFinder s) ''demo_hook'' = (Inr (next_id s), s')
           \<and> attrs (objs s' (next_id s)) ''VALUE'' = Some (IntV 123)
           \<and> \<not> hasattr (objs s' (next_id s)) ''main''
           \<and> sys_modules s' ''demo_hook'' = Some (next_id s)
           \<and> call_plugin e s' (next_id s) argv = (Inl AttributeError, s')"
    by (rule demo_import)
qed

theorem demo_finder_end_to_end_witness:
  "''json'' \<noteq> ''demo_hook'' \<and>
   find_spec_chain base_env (meta_path (install_DemoFinder init_state)) ''json'' = None \<and>
   sys_modules init_state ''demo_hook'' = None \<and>
   (\<exists>s'. import_module base_env (install_DemoFinder init_state) ''demo_hook'' = (Inr 0, s')
      \<and> attrs (objs s' 0) ''VALUE'' = Some (IntV 123)
      \<and> \<not> hasattr (objs s' 0) ''main''
      \<and> call_plugin base_env s' 0 [''x''] = (Inl AttributeError, s'))"
proof -
  have h1: "''json'' \<noteq> ''demo_hook''" by simp
  have h2: "sys_modules init_state ''demo_hook'' = None" by (simp add: init_state_def)
  have n: "next_id init_state = 0" by (simp add: init_state_def)
  note t = demo_finder_end_to_end [of "''json''" base_env init_state "[''x'']"]
  have a: "find_spec_chain base_env (meta_path (install_DemoFinder init_state)) ''json'' = None"
    using t [THEN conjunct2, THEN conjunct1, THEN mp, OF h1]
    by (simp add: init_state_def base_env_def)
  from t [THEN conjunct2, THEN conjunct2, THEN conjunct2, THEN mp, OF h2]
  obtain s' where "import_module base_env (install_DemoFinder init_state) ''demo_hook''
        = (Inr (next_id init_state), s')"
      "attrs (objs s' (next_id init_state)) ''VALUE'' = Some (IntV 123)"
      "\<not> hasattr (objs s' (next_id init_state)) ''main''"
      "call_plugin base_env s' (next_id init_state) [''x''] = (Inl AttributeError, s')"
    by blast
  then have b: "\<exists>s'. import_module base_env (install_DemoFinder init_state) ''demo_hook''
        = (Inr 0, s')
      \<and> attrs (objs s' 0) ''VALUE'' = Some (IntV 123)
      \<and> \<not> hasattr (objs s' 0) ''main''
      \<and> call_plugin base_env s' 0 [''x''] = (Inl AttributeError, s')"
    unfolding n by (intro exI [of _ s'] conjI) assumption+
  show ?thesis using h1 h2 a b by (intro conjI) simp_all
qed

end
